theory Spec2Isabelle
  imports Complex_Main
begin

section \<open>Sales research pipeline (main.py): data model\<close>

text \<open>
  The program is one Python module. It builds a fixed tree of agents out of the ADK's
  agent classes, attaches three observability callbacks to them, optionally creates an
  Exa MCP toolset, and drives the tree through a runner, reading the runner's event stream.

  Python \<open>str\<close> is modelled as \<open>string\<close>; text beyond ASCII is its UTF-8 bytes.
  \<open>time.time()\<close> is a parameter \<open>now\<close>, a \<open>real\<close> standing for the float.
  Everything the module does to the outside (console, logger, session service, runner,
  toolset) is recorded as a list of effects, in program order; the session state and the
  file system are maps that are passed through.
\<close>

subsection \<open>Configuration constants\<close>

definition MODEL_NAME :: string where "MODEL_NAME = ''gemini-2.5-flash''"
definition APP_NAME :: string where "APP_NAME = ''sales_research_app''"
definition USER_ID :: string where "USER_ID = ''sales_rep_01''"
definition SESSION_ID :: string where "SESSION_ID = ''session_001''"
definition SALES_REP_NAME :: string where "SALES_REP_NAME = ''John Doe''"
definition SALES_REP_TITLE :: string where "SALES_REP_TITLE = ''Senior Account Executive''"
definition PROSPECT_COMPANY :: string where "PROSPECT_COMPANY = ''Revolut''"
definition PROSPECT_NAME :: string where "PROSPECT_NAME = ''Carlos Selonke''"

subsection \<open>Values, exceptions, effects\<close>

text \<open>The session state holds floats (the hooks' timestamps) and text (agent outputs).\<close>

datatype pyvalue = Num real | Str string

type_synonym session_state = "string \<rightharpoonup> pyvalue"

text \<open>Python truthiness: \<open>None\<close>, \<open>0.0\<close> and the empty string are false.\<close>

fun truthy :: "pyvalue option \<Rightarrow> bool" where
  "truthy None = False"
| "truthy (Some (Num r)) = (r \<noteq> 0)"
| "truthy (Some (Str s)) = (s \<noteq> [])"

fun str_truthy :: "string option \<Rightarrow> bool" where
  "str_truthy None = False"
| "str_truthy (Some s) = (s \<noteq> [])"

text \<open>
  Exceptions. \<open>KeyboardInterrupt\<close> and \<open>CancelledError\<close> derive from
  \<open>BaseException\<close> only, so an \<open>except Exception\<close> clause does not catch them.
\<close>

datatype exn =
    TypeError string
  | IndexError string
  | OSError string
  | RuntimeError string
  | UnicodeEncodeError string
  | KeyboardInterrupt
  | CancelledError

fun is_Exception :: "exn \<Rightarrow> bool" where
  "is_Exception KeyboardInterrupt = False"
| "is_Exception CancelledError = False"
| "is_Exception _ = True"

fun exn_str :: "exn \<Rightarrow> string" where
  "exn_str (TypeError m) = m"
| "exn_str (IndexError m) = m"
| "exn_str (OSError m) = m"
| "exn_str (RuntimeError m) = m"
| "exn_str (UnicodeEncodeError m) = m"
| "exn_str KeyboardInterrupt = []"
| "exn_str CancelledError = []"

text \<open>The two formatting functions of the Python runtime that act on floats.\<close>

record pyformat =
  fmt_2f :: "real \<Rightarrow> string"
  str_float :: "real \<Rightarrow> string"

fun py_str :: "pyformat \<Rightarrow> pyvalue \<Rightarrow> string" where
  "py_str F (Str s) = s"
| "py_str F (Num r) = str_float F r"

definition is_space :: "char \<Rightarrow> bool" where
  "is_space c = (let n = (of_char c :: nat) in (9 \<le> n \<and> n \<le> 13) \<or> (28 \<le> n \<and> n \<le> 32))"

definition strip :: "string \<Rightarrow> string" where
  "strip s = rev (dropWhile is_space (rev (dropWhile is_space s)))"

subsection \<open>Agents\<close>

record MCPToolset =
  url :: string

datatype tool = google_search | FunctionTool string | McpTools MCPToolset

datatype callback = Cb_on_agent_start | Cb_on_agent_end | Cb_on_tool_start

datatype instruction =
    NEWS_INSTRUCTION
  | COMPETITOR_INSTRUCTION
  | METRICS_INSTRUCTION
  | TECHSTACK_INSTRUCTION
  | LEAD_INSTRUCTION
  | POSITIONING_INSTRUCTION
  | OUTREACH_INSTRUCTION

record llm_agent =
  name :: string
  model :: string
  instruction :: instruction
  output_key :: "string option"
  tools :: "tool list"
  disallow_transfer_to_parent :: bool
  disallow_transfer_to_peers :: bool
  before_agent_callback :: "callback option"
  after_agent_callback :: "callback option"
  before_tool_callback :: "callback option"

text \<open>
  The composite agents carry a name, their sub-agents and the two agent callbacks.
  The constructors are the ADK's classes; the module wraps no check of its own around them.
\<close>

datatype agent =
    LlmAgent llm_agent
  | ParallelAgent string "agent list" "callback option" "callback option"
  | SequentialAgent string "agent list" "callback option" "callback option"

fun agent_name_of :: "agent \<Rightarrow> string" where
  "agent_name_of (LlmAgent a) = name a"
| "agent_name_of (ParallelAgent n _ _ _) = n"
| "agent_name_of (SequentialAgent n _ _ _) = n"


fun declared_key :: "agent \<Rightarrow> string option" where
  "declared_key (LlmAgent a) = output_key a"
| "declared_key (ParallelAgent _ _ _ _) = None"
| "declared_key (SequentialAgent _ _ _ _) = None"

fun agent_tools :: "agent \<Rightarrow> tool list" where
  "agent_tools (LlmAgent a) = tools a"
| "agent_tools (ParallelAgent _ _ _ _) = []"
| "agent_tools (SequentialAgent _ _ _ _) = []"

text \<open>All nodes of a tree, parents before children, children left to right.\<close>

fun all_agents :: "agent \<Rightarrow> agent list" where
  "all_agents (LlmAgent a) = [LlmAgent a]"
| "all_agents (ParallelAgent n subs b a) =
     ParallelAgent n subs b a # concat (map all_agents subs)"
| "all_agents (SequentialAgent n subs b a) =
     SequentialAgent n subs b a # concat (map all_agents subs)"

definition find_agent :: "string \<Rightarrow> agent \<Rightarrow> agent option" where
  "find_agent n t = find (\<lambda>a. agent_name_of a = n) (all_agents t)"

text \<open>The output keys declared anywhere in a tree.\<close>

definition declared_keys :: "agent \<Rightarrow> string list" where
  "declared_keys t = concat (map (\<lambda>a. case declared_key a of None \<Rightarrow> [] | Some k \<Rightarrow> [k]) (all_agents t))"




subsection \<open>Effects\<close>

datatype level = INFO | WARNING

datatype effect =
    Log level string
  | Print string
  | CreateSession string string string
  | RunAsync agent string string string
  | CloseToolset MCPToolset

fun is_close :: "effect \<Rightarrow> bool" where
  "is_close (CloseToolset _) = True"
| "is_close _ = False"

fun is_run :: "effect \<Rightarrow> bool" where
  "is_run (RunAsync _ _ _ _) = True"
| "is_run _ = False"

fun is_create_session :: "effect \<Rightarrow> bool" where
  "is_create_session (CreateSession _ _ _) = True"
| "is_create_session _ = False"

definition close_count :: "effect list \<Rightarrow> nat" where
  "close_count tr = length (filter is_close tr)"

text \<open>The pictographs of the log and console messages, as UTF-8.\<close>

definition EMOJI_PLAY :: string where
  "EMOJI_PLAY = [CHR 0xE2, CHR 0x96, CHR 0xB6, CHR 0xEF, CHR 0xB8, CHR 0x8F]"
definition EMOJI_STOP :: string where
  "EMOJI_STOP = [CHR 0xE2, CHR 0x8F, CHR 0xB9, CHR 0xEF, CHR 0xB8, CHR 0x8F]"
definition EMOJI_TOOLS :: string where
  "EMOJI_TOOLS = [CHR 0xF0, CHR 0x9F, CHR 0x9B, CHR 0xA0, CHR 0xEF, CHR 0xB8, CHR 0x8F]"
definition EMOJI_ROCKET :: string where
  "EMOJI_ROCKET = [CHR 0xF0, CHR 0x9F, CHR 0x9A, CHR 0x80]"
definition EMOJI_MAIL :: string where
  "EMOJI_MAIL = [CHR 0xF0, CHR 0x9F, CHR 0x93, CHR 0xA7]"
definition EMOJI_CHECK :: string where
  "EMOJI_CHECK = [CHR 0xE2, CHR 0x9C, CHR 0x85]"

definition NL :: string where "NL = [CHR 0x0A]"
definition QUOTE :: string where "QUOTE = [CHR 0x27]"

section \<open>Observability hooks\<close>

record callback_context =
  agent_name :: string
  invocation_id :: string
  state :: session_state

definition start_time_key :: "string \<Rightarrow> string \<Rightarrow> string" where
  "start_time_key iid nm = ''metrics:start_time:'' @ iid @ '':'' @ nm"

text \<open>
  \<open>on_agent_start\<close>: stores the current time in the session state under the metrics key
  and logs. Returns the state after the call and the effects.
\<close>

definition on_agent_start :: "callback_context \<Rightarrow> real \<Rightarrow> session_state \<times> effect list" where
  "on_agent_start ctx now =
     (let start_key = start_time_key (invocation_id ctx) (agent_name ctx)
      in ((state ctx)(start_key \<mapsto> Num now),
          [Log INFO (EMOJI_PLAY @ ''  STARTED Agent: '' @ agent_name ctx)]))"

definition output_map :: "string \<rightharpoonup> string" where
  "output_map = map_of
     [(''NewsResearcher'', ''news_data''),
      (''CompetitorResearcher'', ''competitor_data''),
      (''MetricsResearcher'', ''metrics_data''),
      (''TechStackResearcher'', ''techstack_data''),
      (''LeadResearcher'', ''lead_data''),
      (''PositioningStrategist'', ''positioning_strategy'')]"

text \<open>
  The duration message of \<open>on_agent_end\<close>. The state is read with \<open>get\<close>. A truthy
  value that is not a number makes the subtraction raise \<open>TypeError\<close>.
\<close>

definition duration_msg :: "pyformat \<Rightarrow> pyvalue option \<Rightarrow> real \<Rightarrow> exn + string" where
  "duration_msg F start_time now =
     (if truthy start_time then
        (case start_time of
           Some (Num t) \<Rightarrow> Inr (''('' @ fmt_2f F (now - t) @ ''s)'')
         | _ \<Rightarrow> Inl (TypeError ''unsupported operand type(s) for -''))
      else Inr [])"

definition intermediate_output :: "pyformat \<Rightarrow> callback_context \<Rightarrow> effect list" where
  "intermediate_output F ctx =
     (case output_map (agent_name ctx) of
        None \<Rightarrow> []
      | Some state_key \<Rightarrow>
          (case state ctx state_key of
             None \<Rightarrow> []
           | Some data \<Rightarrow>
               if truthy (Some data) then
                 [Print (NL @ replicate 20 CHR ''-'' @ '' INTERMEDIATE OUTPUT: '' @ agent_name ctx
                           @ '' '' @ replicate 20 CHR ''-''),
                  Print (strip (py_str F data)),
                  Print (replicate 65 CHR ''-'' @ NL)]
               else []))"

text \<open>
  \<open>on_agent_end\<close>: reads the start time, logs the duration, prints the agent's output if
  it has one. It assigns to no key of the state; the state it leaves is returned beside
  the effects.
\<close>

definition on_agent_end :: "pyformat \<Rightarrow> callback_context \<Rightarrow> real \<Rightarrow> exn + session_state \<times> effect list" where
  "on_agent_end F ctx now =
     (let start_key = start_time_key (invocation_id ctx) (agent_name ctx);
          start_time = state ctx start_key
      in case duration_msg F start_time now of
           Inl e \<Rightarrow> Inl e
         | Inr msg \<Rightarrow>
             Inr (state ctx,
                  Log INFO (EMOJI_STOP @ ''  FINISHED Agent: '' @ agent_name ctx @ '' '' @ msg)
                    # intermediate_output F ctx))"

definition on_tool_start :: "string \<Rightarrow> string \<Rightarrow> effect list" where
  "on_tool_start tool_name tool_agent =
     [Log INFO (''   '' @ EMOJI_TOOLS @ ''  TOOL CALL: '' @ tool_name @ '' by '' @ tool_agent)]"

section \<open>Helper functions\<close>

subsection \<open>The library functions behind the toolset URL\<close>

text \<open>
  \<open>json.dumps\<close> on a list of strings, with its defaults: every character outside the
  printable ASCII range, the double quote and the backslash are escaped; items are joined
  by a comma and a space. A character is escaped by its own code, which is what Python
  does for code points below 256; the program applies the function to ASCII literals only.
\<close>

definition hex_digit :: "bool \<Rightarrow> nat \<Rightarrow> char" where
  "hex_digit upper n =
     (if n < 10 then char_of (48 + n)
      else if upper then char_of (55 + n) else char_of (87 + n))"

definition json_escape_char :: "char \<Rightarrow> string" where
  "json_escape_char c =
     (let n = (of_char c :: nat) in
      if n = 0x22 then [CHR 0x5C, CHR 0x22]
      else if n = 0x5C then [CHR 0x5C, CHR 0x5C]
      else if n = 0x0A then [CHR 0x5C, CHR ''n'']
      else if n = 0x0D then [CHR 0x5C, CHR ''r'']
      else if n = 0x09 then [CHR 0x5C, CHR ''t'']
      else if n = 0x08 then [CHR 0x5C, CHR ''b'']
      else if n = 0x0C then [CHR 0x5C, CHR ''f'']
      else if n < 0x20 \<or> 0x7E < n then
        [CHR 0x5C, CHR ''u'', CHR ''0'', CHR ''0'', hex_digit False (n div 16), hex_digit False (n mod 16)]
      else [c])"

definition json_dumps_str :: "string \<Rightarrow> string" where
  "json_dumps_str s = [CHR 0x22] @ concat (map json_escape_char s) @ [CHR 0x22]"

fun join :: "string \<Rightarrow> string list \<Rightarrow> string" where
  "join sep [] = []"
| "join sep [x] = x"
| "join sep (x # y # ys) = x @ sep @ join sep (y # ys)"

definition json_dumps :: "string list \<Rightarrow> string" where
  "json_dumps xs = ''['' @ join '', '' (map json_dumps_str xs) @ '']''"

text \<open>
  \<open>urllib.parse.quote\<close> with its default \<open>safe='/'\<close>: letters, digits and the
  characters \<open>_.-~/\<close> are kept, every other byte becomes \<open>%XX\<close> in upper-case hex.
\<close>

definition quote_safe :: "char \<Rightarrow> bool" where
  "quote_safe c =
     (let n = (of_char c :: nat) in
      (0x41 \<le> n \<and> n \<le> 0x5A) \<or> (0x61 \<le> n \<and> n \<le> 0x7A) \<or> (0x30 \<le> n \<and> n \<le> 0x39)
      \<or> c \<in> set ''_.-~/'')"

definition quote_char :: "char \<Rightarrow> string" where
  "quote_char c =
     (if quote_safe c then [c]
      else (let n = (of_char c :: nat) in [CHR ''%'', hex_digit True (n div 16), hex_digit True (n mod 16)]))"

definition quote :: "string \<Rightarrow> string" where
  "quote s = concat (map quote_char s)"

subsection \<open>create_exa_toolset\<close>

type_synonym environ = "string \<rightharpoonup> string"

definition enabled_tools :: "string list" where
  "enabled_tools = [''linkedin_search'', ''web_search_exa'']"

text \<open>
  \<open>os.environ.get("EXA_API_KEY", "")\<close>, then the test \<open>not exa_api_key\<close>. Without a key
  the function logs a warning and returns \<open>None\<close>; otherwise it returns the toolset for
  the URL it builds. Constructing the toolset opens no connection.
\<close>

definition create_exa_toolset :: "environ \<Rightarrow> MCPToolset option \<times> effect list" where
  "create_exa_toolset env =
     (let exa_api_key = (case env ''EXA_API_KEY'' of None \<Rightarrow> [] | Some k \<Rightarrow> k) in
      if exa_api_key = [] then
        (None, [Log WARNING ''EXA_API_KEY not set. LeadProfiler will default to Google Search.''])
      else
        (let encoded_tools = quote (json_dumps enabled_tools);
             exa_url = ''https://mcp.exa.ai/mcp?exaApiKey='' @ exa_api_key
                         @ ''&enabledTools='' @ encoded_tools
         in (Some \<lparr>url = exa_url\<rparr>, [])))"

subsection \<open>build_agents\<close>

text \<open>The shared keyword arguments \<open>search_agent_config\<close>, with the three arguments that vary.\<close>

definition search_agent :: "string \<Rightarrow> instruction \<Rightarrow> string \<Rightarrow> agent" where
  "search_agent n i k = LlmAgent
     \<lparr>name = n, model = MODEL_NAME, instruction = i, output_key = Some k,
      tools = [google_search],
      disallow_transfer_to_parent = True, disallow_transfer_to_peers = True,
      before_agent_callback = Some Cb_on_agent_start,
      after_agent_callback = Some Cb_on_agent_end,
      before_tool_callback = Some Cb_on_tool_start\<rparr>"

definition news_agent :: agent where
  "news_agent = search_agent ''NewsResearcher'' NEWS_INSTRUCTION ''news_data''"
definition competitor_agent :: agent where
  "competitor_agent = search_agent ''CompetitorResearcher'' COMPETITOR_INSTRUCTION ''competitor_data''"
definition metrics_agent :: agent where
  "metrics_agent = search_agent ''MetricsResearcher'' METRICS_INSTRUCTION ''metrics_data''"
definition techstack_agent :: agent where
  "techstack_agent = search_agent ''TechStackResearcher'' TECHSTACK_INSTRUCTION ''techstack_data''"

text \<open>An \<open>MCPToolset\<close> object is truthy, so the test \<open>if exa_toolset\<close> asks whether it is there.\<close>

definition lead_agent :: "MCPToolset option \<Rightarrow> agent" where
  "lead_agent exa_toolset = LlmAgent
     \<lparr>name = ''LeadResearcher'', model = MODEL_NAME, instruction = LEAD_INSTRUCTION,
      output_key = Some ''lead_data'',
      tools = (case exa_toolset of Some ts \<Rightarrow> [McpTools ts] | None \<Rightarrow> [google_search]),
      disallow_transfer_to_parent = True, disallow_transfer_to_peers = True,
      before_agent_callback = Some Cb_on_agent_start,
      after_agent_callback = Some Cb_on_agent_end,
      before_tool_callback = Some Cb_on_tool_start\<rparr>"

definition parallel_research_team :: "MCPToolset option \<Rightarrow> agent" where
  "parallel_research_team exa_toolset = ParallelAgent ''ParallelResearchTeam''
     [news_agent, competitor_agent, metrics_agent, techstack_agent, lead_agent exa_toolset]
     (Some Cb_on_agent_start) (Some Cb_on_agent_end)"

definition positioning_agent :: agent where
  "positioning_agent = LlmAgent
     \<lparr>name = ''PositioningStrategist'', model = MODEL_NAME, instruction = POSITIONING_INSTRUCTION,
      output_key = Some ''positioning_strategy'',
      tools = [FunctionTool ''load_web_page''],
      disallow_transfer_to_parent = False, disallow_transfer_to_peers = False,
      before_agent_callback = Some Cb_on_agent_start,
      after_agent_callback = Some Cb_on_agent_end,
      before_tool_callback = Some Cb_on_tool_start\<rparr>"

definition outreach_agent :: agent where
  "outreach_agent = LlmAgent
     \<lparr>name = ''OutreachWriter'', model = MODEL_NAME, instruction = OUTREACH_INSTRUCTION,
      output_key = None,
      tools = [],
      disallow_transfer_to_parent = False, disallow_transfer_to_peers = False,
      before_agent_callback = Some Cb_on_agent_start,
      after_agent_callback = Some Cb_on_agent_end,
      before_tool_callback = None\<rparr>"

definition build_agents :: "MCPToolset option \<Rightarrow> agent" where
  "build_agents exa_toolset = SequentialAgent ''LeadResearchSystem''
     [parallel_research_team exa_toolset, positioning_agent, outreach_agent]
     (Some Cb_on_agent_start) (Some Cb_on_agent_end)"

section \<open>Runtime: main\<close>

subsection \<open>What the run receives from outside\<close>

text \<open>An event of the runner: its author, whether it is a final response, its content.\<close>

record part =
  part_text :: "string option"

record content =
  parts :: "part list option"

record event =
  author :: string
  is_final_response :: bool
  content :: "content option"

type_synonym files = "string \<rightharpoonup> string"

text \<open>
  One run is determined by: the environment variables; the working directory; the events
  that \<open>runner.run_async\<close> yields and how the stream ends (exhausted, or an exception
  raised out of the runner: a stage's failure, a cancellation, an interrupt); whether
  opening the output file fails; whether closing the toolset fails; the files before the run.
\<close>

record world =
  environ :: environ
  cwd :: string
  events :: "event list"
  stream_end :: "exn option"
  open_error :: "exn option"
  close_error :: "exn option"
  files :: files

definition filename :: string where "filename = ''sales_outreach.md''"

text \<open>\<open>os.path.abspath\<close> of a plain file name: the working directory joined with it.\<close>

definition abspath :: "string \<Rightarrow> string \<Rightarrow> string" where
  "abspath d f = (if d \<noteq> [] \<and> last d = CHR ''/'' then d @ f else d @ ''/'' @ f)"

definition user_query :: string where
  "user_query = ''Research prospect '' @ QUOTE @ PROSPECT_NAME @ QUOTE
                  @ '' and their company: '' @ QUOTE @ PROSPECT_COMPANY @ QUOTE @ ''.''"

subsection \<open>The body of the event loop\<close>

text \<open>\<open>event.content.parts[0].text\<close>: \<open>parts\<close> may be \<open>None\<close> or empty.\<close>

definition first_part_text :: "content \<Rightarrow> exn + string option" where
  "first_part_text c =
     (case parts c of
        None \<Rightarrow> Inl (TypeError ''NoneType object is not subscriptable'')
      | Some [] \<Rightarrow> Inl (IndexError ''list index out of range'')
      | Some (p # _) \<Rightarrow> Inr (part_text p))"

text \<open>
  The branch for the OutreachWriter's final response: print the banner and the text, open
  the file for writing (which truncates it), write the text, print where it was saved.
  The result is the exception raised, if any, the effects and the files.
\<close>

definition save_outreach :: "exn option \<Rightarrow> string \<Rightarrow> files \<Rightarrow> content \<Rightarrow> exn option \<times> effect list \<times> files" where
  "save_outreach open_err d fs c =
     (case first_part_text c of
        Inl e \<Rightarrow> (Some e, [], fs)
      | Inr final_text \<Rightarrow>
          (let banner =
                 [Print (NL @ replicate 64 CHR ''=''),
                  Print (EMOJI_MAIL @ '' FINAL OUTREACH DRAFT''),
                  Print (replicate 64 CHR ''='' @ NL),
                  Print (case final_text of None \<Rightarrow> ''None'' | Some t \<Rightarrow> t)]
           in case open_err of
                Some e \<Rightarrow> (Some e, banner, fs)
              | None \<Rightarrow>
                  (case final_text of
                     None \<Rightarrow> (Some (TypeError ''write() argument must be str, not None''),
                              banner, fs(filename \<mapsto> []))
                   | Some t \<Rightarrow>
                       (None,
                        banner @ [Print (NL @ EMOJI_CHECK @ '' Saved outreach draft to: ''
                                           @ abspath d filename)],
                        fs(filename \<mapsto> t)))))"

definition handle_event :: "exn option \<Rightarrow> string \<Rightarrow> files \<Rightarrow> event \<Rightarrow> exn option \<times> effect list \<times> files" where
  "handle_event open_err d fs ev =
     (if is_final_response ev then
        (case content ev of
           None \<Rightarrow> (None, [], fs)
         | Some c \<Rightarrow>
             if author ev = ''OutreachWriter'' then save_outreach open_err d fs c
             else if author ev = ''PositioningStrategist'' then
               (None, [Print (NL @ ''[DEBUG] Positioning Strategy Generated...'' @ NL)], fs)
             else (None, [], fs))
      else (None, [], fs))"

text \<open>
  The \<open>async for\<close> loop: events are handled in order; an exception raised by the body
  leaves the loop; after the last event the stream ends as the world says.
\<close>

fun run_events :: "exn option \<Rightarrow> string \<Rightarrow> exn option \<Rightarrow> files \<Rightarrow> event list \<Rightarrow> exn option \<times> effect list \<times> files" where
  "run_events open_err d fin fs [] = (fin, [], fs)"
| "run_events open_err d fin fs (ev # evs) =
     (case handle_event open_err d fs ev of
        (Some e, effs, fs') \<Rightarrow> (Some e, effs, fs')
      | (None, effs, fs') \<Rightarrow>
          (case run_events open_err d fin fs' evs of
             (r, effs', fs'') \<Rightarrow> (r, effs @ effs', fs'')))"

subsection \<open>The finally block\<close>

text \<open>
  \<open>pending\<close> is the exception in flight when the block is entered. An exception of class
  \<open>Exception\<close> raised by \<open>close\<close> is logged; any other propagates in place of the pending one.
\<close>

definition cleanup :: "MCPToolset option \<Rightarrow> exn option \<Rightarrow> exn option \<Rightarrow> exn option \<times> effect list" where
  "cleanup exa_toolset close_err pending =
     (case exa_toolset of
        None \<Rightarrow> (pending, [])
      | Some ts \<Rightarrow>
          (let closing = [Print (NL @ ''Closing Exa toolset connection...''), CloseToolset ts]
           in case close_err of
                None \<Rightarrow> (pending, closing)
              | Some e \<Rightarrow>
                  if is_Exception e then
                    (pending, closing @ [Log WARNING (''Error during toolset cleanup: '' @ exn_str e)])
                  else (Some e, closing)))"

subsection \<open>main\<close>

text \<open>
  The result of \<open>main\<close>: the exception it raises (\<open>None\<close> when it returns), the effects in
  order, and the files after the run.
\<close>

definition main :: "world \<Rightarrow> exn option \<times> effect list \<times> files" where
  "main w =
     (if \<not> str_truthy (environ w ''GOOGLE_API_KEY'')
         \<and> \<not> str_truthy (environ w ''GOOGLE_GENAI_USE_VERTEXAI'') then
        (None, [Print ''Error: GOOGLE_API_KEY not found.''], files w)
      else
        (case create_exa_toolset (environ w) of
           (exa_toolset, warn) \<Rightarrow>
             (let root_agent = build_agents exa_toolset;
                  setup =
                    [CreateSession APP_NAME USER_ID SESSION_ID] @ warn @
                    [Print (EMOJI_ROCKET @ '' Starting Sales System (Rep: '' @ SALES_REP_NAME @ '')...''),
                     Print (replicate 64 CHR ''-''),
                     Print (''TARGET: '' @ user_query @ NL),
                     RunAsync root_agent USER_ID SESSION_ID user_query]
              in case run_events (open_error w) (cwd w) (stream_end w) (files w) (events w) of
                   (r, effs, fs) \<Rightarrow>
                     (case cleanup exa_toolset (close_error w) r of
                        (r', closing) \<Rightarrow> (r', setup @ effs @ closing, fs)))))"

subsection \<open>main with a console that can fail\<close>

text \<open>
  \<open>print\<close> raises when the console cannot take the string: \<open>UnicodeEncodeError\<close> when
  the encoding of the standard output lacks a character, \<open>OSError\<close> when the pipe is closed.
  A console is the function that says, for a string, whether printing it raises. The
  functions below are \<open>save_outreach\<close>, \<open>handle_event\<close>, \<open>run_events\<close>, \<open>cleanup\<close>
  and \<open>main\<close> once more, statement by statement, with every \<open>print\<close> allowed to raise.
  The functions above are the case of a console that takes every string.
\<close>

type_synonym console = "string \<Rightarrow> exn option"

text \<open>Consecutive prints: the first one that raises ends the sequence.\<close>

fun print_all :: "console \<Rightarrow> string list \<Rightarrow> exn option \<times> effect list" where
  "print_all con [] = (None, [])"
| "print_all con (s # ss) =
     (case con s of
        Some e \<Rightarrow> (Some e, [])
      | None \<Rightarrow> (case print_all con ss of (r, effs) \<Rightarrow> (r, Print s # effs)))"

definition save_outreach_io :: "console \<Rightarrow> exn option \<Rightarrow> string \<Rightarrow> files \<Rightarrow> content \<Rightarrow> exn option \<times> effect list \<times> files" where
  "save_outreach_io con open_err d fs c =
     (case first_part_text c of
        Inl e \<Rightarrow> (Some e, [], fs)
      | Inr final_text \<Rightarrow>
          (case print_all con
                  [NL @ replicate 64 CHR ''='',
                   EMOJI_MAIL @ '' FINAL OUTREACH DRAFT'',
                   replicate 64 CHR ''='' @ NL,
                   (case final_text of None \<Rightarrow> ''None'' | Some t \<Rightarrow> t)] of
             (Some e, banner) \<Rightarrow> (Some e, banner, fs)
           | (None, banner) \<Rightarrow>
               (case open_err of
                  Some e \<Rightarrow> (Some e, banner, fs)
                | None \<Rightarrow>
                    (case final_text of
                       None \<Rightarrow> (Some (TypeError ''write() argument must be str, not None''),
                                banner, fs(filename \<mapsto> []))
                     | Some t \<Rightarrow>
                         (case print_all con
                                 [NL @ EMOJI_CHECK @ '' Saved outreach draft to: ''
                                    @ abspath d filename] of
                            (r, saved) \<Rightarrow> (r, banner @ saved, fs(filename \<mapsto> t)))))))"

definition handle_event_io :: "console \<Rightarrow> exn option \<Rightarrow> string \<Rightarrow> files \<Rightarrow> event \<Rightarrow> exn option \<times> effect list \<times> files" where
  "handle_event_io con open_err d fs ev =
     (if is_final_response ev then
        (case content ev of
           None \<Rightarrow> (None, [], fs)
         | Some c \<Rightarrow>
             if author ev = ''OutreachWriter'' then save_outreach_io con open_err d fs c
             else if author ev = ''PositioningStrategist'' then
               (case print_all con [NL @ ''[DEBUG] Positioning Strategy Generated...'' @ NL] of
                  (r, effs) \<Rightarrow> (r, effs, fs))
             else (None, [], fs))
      else (None, [], fs))"

fun run_events_io :: "console \<Rightarrow> exn option \<Rightarrow> string \<Rightarrow> exn option \<Rightarrow> files \<Rightarrow> event list \<Rightarrow> exn option \<times> effect list \<times> files" where
  "run_events_io con open_err d fin fs [] = (fin, [], fs)"
| "run_events_io con open_err d fin fs (ev # evs) =
     (case handle_event_io con open_err d fs ev of
        (Some e, effs, fs') \<Rightarrow> (Some e, effs, fs')
      | (None, effs, fs') \<Rightarrow>
          (case run_events_io con open_err d fin fs' evs of
             (r, effs', fs'') \<Rightarrow> (r, effs @ effs', fs'')))"

text \<open>
  The finally block. Its \<open>print\<close> stands before the inner \<open>try\<close>: when it raises, the
  exception leaves the block and \<open>close\<close> is not reached.
\<close>

definition cleanup_io :: "console \<Rightarrow> MCPToolset option \<Rightarrow> exn option \<Rightarrow> exn option \<Rightarrow> exn option \<times> effect list" where
  "cleanup_io con exa_toolset close_err pending =
     (case exa_toolset of
        None \<Rightarrow> (pending, [])
      | Some ts \<Rightarrow>
          (case print_all con [NL @ ''Closing Exa toolset connection...''] of
             (Some e, effs) \<Rightarrow> (Some e, effs)
           | (None, effs) \<Rightarrow>
               (case close_err of
                  None \<Rightarrow> (pending, effs @ [CloseToolset ts])
                | Some e \<Rightarrow>
                    if is_Exception e then
                      (pending, effs @ [CloseToolset ts,
                                        Log WARNING (''Error during toolset cleanup: '' @ exn_str e)])
                    else (Some e, effs @ [CloseToolset ts]))))"

text \<open>
  \<open>main\<close>. The session, the toolset, the tree and the runner are created and three lines
  are printed before the \<open>try\<close> is entered; an exception raised by one of these prints
  leaves \<open>main\<close> at once, past the \<open>finally\<close> block.
\<close>

definition main_io :: "console \<Rightarrow> world \<Rightarrow> exn option \<times> effect list \<times> files" where
  "main_io con w =
     (if \<not> str_truthy (environ w ''GOOGLE_API_KEY'')
         \<and> \<not> str_truthy (environ w ''GOOGLE_GENAI_USE_VERTEXAI'') then
        (case print_all con [''Error: GOOGLE_API_KEY not found.''] of
           (r, effs) \<Rightarrow> (r, effs, files w))
      else
        (case create_exa_toolset (environ w) of
           (exa_toolset, warn) \<Rightarrow>
             (let root_agent = build_agents exa_toolset;
                  created = [CreateSession APP_NAME USER_ID SESSION_ID] @ warn
              in case print_all con
                        [EMOJI_ROCKET @ '' Starting Sales System (Rep: '' @ SALES_REP_NAME @ '')...'',
                         replicate 64 CHR ''-'',
                         ''TARGET: '' @ user_query @ NL] of
                   (Some e, effs) \<Rightarrow> (Some e, created @ effs, files w)
                 | (None, effs) \<Rightarrow>
                     (case run_events_io con (open_error w) (cwd w) (stream_end w) (files w) (events w) of
                        (r, effs', fs) \<Rightarrow>
                          (case cleanup_io con exa_toolset (close_error w) r of
                             (r', closing) \<Rightarrow>
                               (r', created @ effs @ [RunAsync root_agent USER_ID SESSION_ID user_query]
                                      @ effs' @ closing, fs))))))"

text \<open>The test of the loop body that selects the OutreachWriter's final response.\<close>

definition is_outreach_final :: "event \<Rightarrow> bool" where
  "is_outreach_final ev = (is_final_response ev \<and> content ev \<noteq> None \<and> author ev = ''OutreachWriter'')"

section \<open>Sample inputs\<close>

text \<open>Concrete inputs on which the theorems below are instantiated.\<close>

definition sample_format :: pyformat where
  "sample_format = \<lparr>fmt_2f = (\<lambda>r. ''2.00''), str_float = (\<lambda>r. ''0.0'')\<rparr>"

definition sample_events :: "event list" where
  "sample_events =
     [\<lparr>author = ''PositioningStrategist'', is_final_response = True,
       content = Some \<lparr>parts = Some [\<lparr>part_text = Some ''Strategy''\<rparr>]\<rparr>\<rparr>,
      \<lparr>author = ''OutreachWriter'', is_final_response = True,
       content = Some \<lparr>parts = Some [\<lparr>part_text = Some ''Hello Carlos''\<rparr>]\<rparr>\<rparr>]"

text \<open>A run in \<open>/home/rep\<close> with no files, given the environment, the stream's end and the outcome of close.\<close>

definition sample_world :: "environ \<Rightarrow> exn option \<Rightarrow> exn option \<Rightarrow> world" where
  "sample_world env fin cerr =
     \<lparr>environ = env, cwd = ''/home/rep'', events = sample_events, stream_end = fin,
      open_error = None, close_error = cerr, files = Map.empty\<rparr>"

definition sample_toolset :: MCPToolset where
  "sample_toolset = \<lparr>url = ''https://mcp.exa.ai/mcp?exaApiKey=abc123&enabledTools=%5B%22linkedin_search%22%2C%20%22web_search_exa%22%5D''\<rparr>"

definition env_both :: environ where
  "env_both = [''GOOGLE_API_KEY'' \<mapsto> ''g-key'', ''EXA_API_KEY'' \<mapsto> ''abc123'']"

definition env_google_only :: environ where
  "env_google_only = [''GOOGLE_API_KEY'' \<mapsto> ''g-key'']"

text \<open>A standard output whose encoding is ASCII, and one that takes every string.\<close>

definition ascii_console :: console where
  "ascii_console s =
     (if list_all (\<lambda>c. (of_char c :: nat) < 128) s then None
      else Some (UnicodeEncodeError ''ascii codec cannot encode character''))"

definition utf8_console :: console where
  "utf8_console s = None"

section \<open>Properties of the agent tree\<close>

lemma declared_keys_build_agents:
  "declared_keys (build_agents ts) =
     [''news_data'', ''competitor_data'', ''metrics_data'', ''techstack_data'', ''lead_data'',
      ''positioning_strategy'']"
  by (simp add: declared_keys_def build_agents_def parallel_research_team_def news_agent_def
      competitor_agent_def metrics_agent_def techstack_agent_def lead_agent_def
      positioning_agent_def outreach_agent_def search_agent_def)




section \<open>Properties of the hooks\<close>

text \<open>
  C10. The start hook stores its timestamp in the session state, the same map that holds
  the agents' outputs, under \<open>metrics:start_time:<invocation id>:<agent name>\<close>. Whatever
  the invocation id and the agent name are, that key is none of the output keys declared in
  the tree (\<open>news_data\<close>, \<open>competitor_data\<close>, \<open>metrics_data\<close>, \<open>techstack_data\<close>,
  \<open>lead_data\<close>, \<open>positioning_strategy\<close>), so the value under each of them is the same
  before and after the hook.
\<close>

theorem metrics_key_disjoint_from_output_keys:
  "fst (on_agent_start ctx now)
     = (state ctx)(''metrics:start_time:'' @ invocation_id ctx @ '':'' @ agent_name ctx \<mapsto> Num now)
   \<and> declared_keys (build_agents ts)
        = [''news_data'', ''competitor_data'', ''metrics_data'', ''techstack_data'', ''lead_data'',
           ''positioning_strategy'']
   \<and> ''metrics:start_time:'' @ invocation_id ctx @ '':'' @ agent_name ctx
        \<notin> set (declared_keys (build_agents ts))
   \<and> map (fst (on_agent_start ctx now)) (declared_keys (build_agents ts))
        = map (state ctx) (declared_keys (build_agents ts))"
  by (simp add: on_agent_start_def start_time_key_def declared_keys_build_agents)

text \<open>
  C4, as the code has it. The end hook reads the start time with \<open>get\<close> and assigns to no
  key. Run after the start hook of the same invocation and agent, it returns, logs the
  duration computed from the stored time (no duration when the stored time is zero), and
  leaves the state exactly as the start hook left it: the timestamp is still there.
\<close>

theorem end_hook_keeps_record:
  "on_agent_end F (ctx\<lparr>state := fst (on_agent_start ctx t0)\<rparr>) now
     = Inr (fst (on_agent_start ctx t0),
            Log INFO (EMOJI_STOP @ ''  FINISHED Agent: '' @ agent_name ctx @ '' ''
                        @ (if t0 = 0 then [] else ''('' @ fmt_2f F (now - t0) @ ''s)''))
              # intermediate_output F (ctx\<lparr>state := fst (on_agent_start ctx t0)\<rparr>))
   \<and> fst (on_agent_start ctx t0) (start_time_key (invocation_id ctx) (agent_name ctx)) = Some (Num t0)"
  by (simp add: on_agent_end_def on_agent_start_def duration_msg_def Let_def)

text \<open>
  C4, as the specification states it, fails: starting from an empty state, after the start
  hook at time 100 and the end hook at time 102 of invocation \<open>e-1\<close> of the OutreachWriter,
  the state still maps the metrics key to 100.
\<close>

theorem end_hook_removes_record_counterexample:
  "on_agent_end sample_format
      \<lparr>agent_name = ''OutreachWriter'', invocation_id = ''e-1'',
       state = fst (on_agent_start
                 \<lparr>agent_name = ''OutreachWriter'', invocation_id = ''e-1'', state = Map.empty\<rparr> 100)\<rparr>
      102
     = Inr ([''metrics:start_time:e-1:OutreachWriter'' \<mapsto> Num 100],
            [Log INFO (EMOJI_STOP @ ''  FINISHED Agent: OutreachWriter (2.00s)'')])"
  by (simp add: on_agent_end_def on_agent_start_def duration_msg_def Let_def start_time_key_def
       sample_format_def intermediate_output_def output_map_def)

section \<open>Properties of create_exa_toolset\<close>

lemma encoded_tools_value:
  "quote (json_dumps enabled_tools) = ''%5B%22linkedin_search%22%2C%20%22web_search_exa%22%5D''"
  by code_simp

text \<open>
  C9. With a non-empty \<open>EXA_API_KEY\<close>, the toolset's URL is the fixed prefix, the key as it
  is, \<open>&enabledTools=\<close>, and the URL-quoted JSON encoding of the list of the two enabled
  tool names; no warning is logged. The quoted list is spelled out.
\<close>

theorem exa_url_embeds_key_and_tools:
  assumes "env ''EXA_API_KEY'' = Some key" and "key \<noteq> []"
  shows "create_exa_toolset env =
           (Some \<lparr>url = ''https://mcp.exa.ai/mcp?exaApiKey='' @ key @ ''&enabledTools=''
                          @ quote (json_dumps [''linkedin_search'', ''web_search_exa''])\<rparr>, [])
         \<and> quote (json_dumps [''linkedin_search'', ''web_search_exa''])
             = ''%5B%22linkedin_search%22%2C%20%22web_search_exa%22%5D''"
  using assms encoded_tools_value
  by (simp add: create_exa_toolset_def enabled_tools_def)

theorem exa_url_embeds_key_and_tools_witness:
  "create_exa_toolset [''EXA_API_KEY'' \<mapsto> ''abc123'']
     = (Some \<lparr>url = ''https://mcp.exa.ai/mcp?exaApiKey=abc123&enabledTools=%5B%22linkedin_search%22%2C%20%22web_search_exa%22%5D''\<rparr>, [])"
  using exa_url_embeds_key_and_tools [of "[''EXA_API_KEY'' \<mapsto> ''abc123'']" "''abc123''"]
  by simp

section \<open>Properties of main\<close>

subsection \<open>The event loop and the finally block\<close>

lemma save_outreach_no_close:
  "filter is_close (fst (snd (save_outreach oe d fs c))) = []"
  by (simp add: save_outreach_def Let_def split: sum.splits option.splits)

lemma handle_event_no_close:
  "filter is_close (fst (snd (handle_event oe d fs ev))) = []"
  by (simp add: handle_event_def save_outreach_no_close split: option.splits)

lemma run_events_no_close:
  "filter is_close (fst (snd (run_events oe d fin fs evs))) = []"
proof (induction evs arbitrary: fs)
  case Nil
  show ?case by simp
next
  case (Cons ev evs)
  obtain r effs fs' where h: "handle_event oe d fs ev = (r, effs, fs')"
    by (cases "handle_event oe d fs ev") auto
  have e: "filter is_close effs = []"
    using handle_event_no_close [of oe d fs ev] h by simp
  show ?case
  proof (cases r)
    case None
    obtain r2 effs2 fs2 where k: "run_events oe d fin fs' evs = (r2, effs2, fs2)"
      by (cases "run_events oe d fin fs' evs") auto
    have "filter is_close effs2 = []"
      using Cons.IH [of fs'] k by simp
    with None h k e show ?thesis by simp
  next
    case (Some x)
    with h e show ?thesis by simp
  qed
qed

lemma cleanup_close_some:
  "filter is_close (snd (cleanup (Some ts) cerr pending)) = [CloseToolset ts]"
  by (simp add: cleanup_def Let_def split: option.splits)

lemma cleanup_none:
  "cleanup None cerr pending = (pending, [])"
  by (simp add: cleanup_def)

lemma create_exa_toolset_no_close:
  "filter is_close (snd (create_exa_toolset env)) = []"
  by (simp add: create_exa_toolset_def Let_def)

text \<open>The shape of \<open>main\<close> once the credential check has passed.\<close>

lemma main_unfold:
  assumes "str_truthy (environ w ''GOOGLE_API_KEY'') \<or> str_truthy (environ w ''GOOGLE_GENAI_USE_VERTEXAI'')"
  shows "main w =
     (fst (cleanup (fst (create_exa_toolset (environ w))) (close_error w)
             (fst (run_events (open_error w) (cwd w) (stream_end w) (files w) (events w)))),
      ([CreateSession APP_NAME USER_ID SESSION_ID] @ snd (create_exa_toolset (environ w)) @
       [Print (EMOJI_ROCKET @ '' Starting Sales System (Rep: '' @ SALES_REP_NAME @ '')...''),
        Print (replicate 64 CHR ''-''),
        Print (''TARGET: '' @ user_query @ NL),
        RunAsync (build_agents (fst (create_exa_toolset (environ w)))) USER_ID SESSION_ID user_query])
      @ fst (snd (run_events (open_error w) (cwd w) (stream_end w) (files w) (events w)))
      @ snd (cleanup (fst (create_exa_toolset (environ w))) (close_error w)
             (fst (run_events (open_error w) (cwd w) (stream_end w) (files w) (events w)))),
      snd (snd (run_events (open_error w) (cwd w) (stream_end w) (files w) (events w))))"
  using assms
  by (auto simp add: main_def Let_def split: prod.splits)

lemma create_env_both: "create_exa_toolset env_both = (Some sample_toolset, [])"
  using encoded_tools_value
  by (simp add: create_exa_toolset_def env_both_def sample_toolset_def enabled_tools_def Let_def)

lemma lead_tools_without_toolset:
  "map_option agent_tools (find_agent ''LeadResearcher'' (build_agents None)) = Some [google_search]"
  by (simp add: find_agent_def build_agents_def parallel_research_team_def news_agent_def
      competitor_agent_def metrics_agent_def techstack_agent_def lead_agent_def
      positioning_agent_def outreach_agent_def search_agent_def)

lemma run_events_append:
  "run_events oe d fin fs (xs @ ys) =
     (case run_events oe d None fs xs of
        (Some e, effs, fs1) \<Rightarrow> (Some e, effs, fs1)
      | (None, effs, fs1) \<Rightarrow>
          (case run_events oe d fin fs1 ys of (r, effs', fs2) \<Rightarrow> (r, effs @ effs', fs2)))"
proof (induction xs arbitrary: fs)
  case Nil
  show ?case by (simp split: prod.splits)
next
  case (Cons x xs)
  show ?case
    by (simp add: Cons.IH split: prod.splits option.splits)
qed

lemma handle_event_other_files:
  assumes "\<not> is_outreach_final ev"
  shows "snd (snd (handle_event oe d fs ev)) = fs"
  using assms
  by (auto simp add: handle_event_def is_outreach_final_def split: option.splits)

lemma run_events_other_files:
  assumes "list_all (\<lambda>e. \<not> is_outreach_final e) evs"
  shows "snd (snd (run_events oe d fin fs evs)) = fs"
  using assms
proof (induction evs arbitrary: fs)
  case Nil
  show ?case by simp
next
  case (Cons ev evs)
  have a: "snd (snd (handle_event oe d fs ev)) = fs"
    using Cons.prems handle_event_other_files by simp
  have b: "snd (snd (run_events oe d fin fs evs)) = fs"
    using Cons.IH Cons.prems by simp
  obtain r effs fs' where h: "handle_event oe d fs ev = (r, effs, fs')"
    by (cases "handle_event oe d fs ev") auto
  with a have f: "fs' = fs" by simp
  show ?case
  proof (cases r)
    case None
    with h f b show ?thesis by (auto split: prod.splits)
  next
    case (Some e)
    with h f show ?thesis by simp
  qed
qed

lemma handle_outreach_ok:
  assumes "is_final_response ev" and "author ev = ''OutreachWriter''" and "content ev = Some c"
      and "handle_event oe d fs ev = (None, effs, fs')"
  shows "\<exists>p ps t. parts c = Some (p # ps) \<and> part_text p = Some t
           \<and> Print t \<in> set effs
           \<and> Print (NL @ EMOJI_CHECK @ '' Saved outreach draft to: '' @ abspath d ''sales_outreach.md'') \<in> set effs
           \<and> fs' = fs(''sales_outreach.md'' \<mapsto> t)"
  using assms
  by (auto simp add: handle_event_def save_outreach_def first_part_text_def filename_def Let_def
      split: option.splits list.splits sum.splits)

subsection \<open>Teardown of the tool connection\<close>

text \<open>
  Once the \<open>try\<close> is entered with a toolset, the effects of \<open>main\<close> contain exactly one
  close, of that toolset: for every event stream and every way it ends (exhausted, an
  exception raised out of the runner by a failed stage, a cancellation or an interrupt),
  for a failure of the loop body, and whatever close itself does.
\<close>

lemma close_once_inside_try:
  assumes "str_truthy (environ w ''GOOGLE_API_KEY'') \<or> str_truthy (environ w ''GOOGLE_GENAI_USE_VERTEXAI'')"
      and "fst (create_exa_toolset (environ w)) = Some ts"
  shows "filter is_close (fst (snd (main w))) = [CloseToolset ts]
         \<and> close_count (fst (snd (main w))) = 1"
  using assms(2)
  by (simp add: main_unfold [OF assms(1)] close_count_def run_events_no_close
      create_exa_toolset_no_close cleanup_close_some)

text \<open>With a console that takes every string, the functions with a console are the plain ones.\<close>

lemma print_all_utf8: "print_all utf8_console ss = (None, map Print ss)"
  by (induction ss) (simp_all add: utf8_console_def)

lemma save_outreach_io_utf8:
  "save_outreach_io utf8_console oe d fs c = save_outreach oe d fs c"
  by (simp add: save_outreach_io_def save_outreach_def utf8_console_def Let_def
      split: sum.splits option.splits)

lemma handle_event_io_utf8:
  "handle_event_io utf8_console oe d fs ev = handle_event oe d fs ev"
  by (simp add: handle_event_io_def handle_event_def save_outreach_io_utf8 utf8_console_def
      split: option.splits)

lemma run_events_io_utf8:
  "run_events_io utf8_console oe d fin fs evs = run_events oe d fin fs evs"
  by (induction evs arbitrary: fs)
     (simp_all add: handle_event_io_utf8 split: prod.splits option.splits)

lemma cleanup_io_utf8:
  "cleanup_io utf8_console ts ce pending = cleanup ts ce pending"
  by (simp add: cleanup_io_def cleanup_def utf8_console_def Let_def split: option.splits)

lemma main_io_utf8: "main_io utf8_console w = main w"
  by (simp add: main_io_def main_def utf8_console_def run_events_io_utf8 cleanup_io_utf8 Let_def
      split: prod.splits)

lemma ascii_console_rocket:
  "ascii_console (EMOJI_ROCKET @ s) = Some (UnicodeEncodeError ''ascii codec cannot encode character'')"
  by (simp add: ascii_console_def EMOJI_ROCKET_def)

text \<open>
  Whenever the first line printed after the toolset's creation cannot be printed, \<open>main\<close>
  raises the print's exception before the \<open>try\<close> is entered, and nothing is closed.
\<close>

lemma close_skipped_general:
  assumes cred: "str_truthy (environ w ''GOOGLE_API_KEY'') \<or> str_truthy (environ w ''GOOGLE_GENAI_USE_VERTEXAI'')"
      and fail: "con (EMOJI_ROCKET @ '' Starting Sales System (Rep: '' @ SALES_REP_NAME @ '')...'') = Some e"
  shows "main_io con w = (Some e, CreateSession APP_NAME USER_ID SESSION_ID # snd (create_exa_toolset (environ w)), files w)
         \<and> filter is_close (fst (snd (main_io con w))) = []"
proof -
  obtain ts warn where c: "create_exa_toolset (environ w) = (ts, warn)"
    by (cases "create_exa_toolset (environ w)") auto
  have w: "filter is_close warn = []"
    using create_exa_toolset_no_close [of "environ w"] c by simp
  have m: "main_io con w = (Some e, CreateSession APP_NAME USER_ID SESSION_ID # warn, files w)"
    using cred fail by (auto simp add: main_io_def c Let_def)
  show ?thesis
    using m c w by simp
qed

text \<open>
  C1 does not hold on every exit path. The toolset is created before the \<open>try\<close> statement
  and the lines between the two are not covered by the \<open>finally\<close> block. In a run with both
  credentials set and a standard output encoded in ASCII, \<open>create_exa_toolset\<close> returns the
  toolset, the first \<open>print\<close> after it raises \<open>UnicodeEncodeError\<close> on its pictograph,
  \<open>main\<close> raises that exception, and its effects contain no close: the toolset that was
  created is never closed.
\<close>

theorem close_skipped_when_setup_print_fails:
  "create_exa_toolset (environ (sample_world env_both None None)) = (Some sample_toolset, [])
   \<and> main_io ascii_console (sample_world env_both None None)
       = (Some (UnicodeEncodeError ''ascii codec cannot encode character''),
          [CreateSession ''sales_research_app'' ''sales_rep_01'' ''session_001''],
          Map.empty)
   \<and> close_count (fst (snd (main_io ascii_console (sample_world env_both None None)))) = 0"
proof -
  have c: "create_exa_toolset (environ (sample_world env_both None None)) = (Some sample_toolset, [])"
    by (simp add: sample_world_def create_env_both)
  have g: "str_truthy (environ (sample_world env_both None None) ''GOOGLE_API_KEY'')"
    by (simp add: sample_world_def env_both_def)
  have m: "main_io ascii_console (sample_world env_both None None)
       = (Some (UnicodeEncodeError ''ascii codec cannot encode character''),
          [CreateSession ''sales_research_app'' ''sales_rep_01'' ''session_001''],
          Map.empty)"
    using g by (simp add: main_io_def c ascii_console_rocket APP_NAME_def USER_ID_def SESSION_ID_def)
       (simp add: sample_world_def)
  show ?thesis
    using c m by (simp add: close_count_def)
qed

text \<open>
  C7, as the code has it. When the toolset exists and its close raises \<open>e\<close>: if \<open>e\<close> is of
  class \<open>Exception\<close>, it is logged as a warning and \<open>main\<close> ends as its \<open>try\<close> body ended
  (it returns if the loop finished, and raises the loop's exception if the loop raised);
  if \<open>e\<close> is not of class \<open>Exception\<close> (\<open>KeyboardInterrupt\<close>, \<open>CancelledError\<close>), the
  \<open>except Exception\<close> clause does not catch it, nothing is logged, and \<open>main\<close> raises \<open>e\<close>
  in place of the body's result. In both cases the files and the other effects are those of
  the run in which close succeeds.
\<close>

theorem close_error_handling:
  assumes "str_truthy (environ w ''GOOGLE_API_KEY'') \<or> str_truthy (environ w ''GOOGLE_GENAI_USE_VERTEXAI'')"
      and "fst (create_exa_toolset (environ w)) = Some ts"
      and "close_error w = Some e"
  shows "fst (main w) =
           (if is_Exception e
            then fst (run_events (open_error w) (cwd w) (stream_end w) (files w) (events w))
            else Some e)
         \<and> fst (main (w\<lparr>close_error := None\<rparr>))
             = fst (run_events (open_error w) (cwd w) (stream_end w) (files w) (events w))
         \<and> fst (snd (main w)) = fst (snd (main (w\<lparr>close_error := None\<rparr>)))
              @ (if is_Exception e
                 then [Log WARNING (''Error during toolset cleanup: '' @ exn_str e)] else [])
         \<and> snd (snd (main w)) = snd (snd (main (w\<lparr>close_error := None\<rparr>)))"
proof -
  have c0: "str_truthy (environ (w\<lparr>close_error := None\<rparr>) ''GOOGLE_API_KEY'')
            \<or> str_truthy (environ (w\<lparr>close_error := None\<rparr>) ''GOOGLE_GENAI_USE_VERTEXAI'')"
    using assms(1) by simp
  show ?thesis
    using assms(2,3)
    by (simp add: main_unfold [OF assms(1)] main_unfold [OF c0] cleanup_def Let_def)
qed

lemma sample_run_result:
  "fst (run_events None ''/home/rep'' fin Map.empty sample_events) = fin"
  by (simp add: sample_events_def handle_event_def save_outreach_def first_part_text_def)

theorem close_error_handling_witness:
  "fst (main (sample_world env_both (Some (RuntimeError ''stage failed'')) (Some (OSError ''connection reset''))))
     = Some (RuntimeError ''stage failed'')
   \<and> fst (main (sample_world env_both None (Some (OSError ''connection reset'')))) = None
   \<and> fst (main (sample_world env_both None (Some KeyboardInterrupt))) = Some KeyboardInterrupt"
  using close_error_handling [of "sample_world env_both (Some (RuntimeError ''stage failed'')) (Some (OSError ''connection reset''))" sample_toolset "OSError ''connection reset''"]
        close_error_handling [of "sample_world env_both None (Some (OSError ''connection reset''))" sample_toolset "OSError ''connection reset''"]
        close_error_handling [of "sample_world env_both None (Some KeyboardInterrupt)" sample_toolset KeyboardInterrupt]
  by (simp add: sample_world_def create_env_both sample_run_result) (simp add: env_both_def)

text \<open>
  C7, as the specification states it, fails: when a stage's failure ends the event stream
  with \<open>RuntimeError\<close> and close is then cancelled, \<open>main\<close> raises \<open>CancelledError\<close>;
  the cleanup failure has replaced the error that ended the run, which the same run with a
  successful close raises.
\<close>

theorem close_error_masks_stage_failure:
  "fst (main (sample_world env_both (Some (RuntimeError ''stage failed'')) (Some CancelledError)))
     = Some CancelledError
   \<and> fst (main (sample_world env_both (Some (RuntimeError ''stage failed'')) None))
       = Some (RuntimeError ''stage failed'')"
proof -
  have g: "str_truthy (environ (sample_world env_both fin ce) ''GOOGLE_API_KEY'')
           \<or> str_truthy (environ (sample_world env_both fin ce) ''GOOGLE_GENAI_USE_VERTEXAI'')" for fin ce
    by (simp add: sample_world_def env_both_def)
  show ?thesis
    by (simp add: main_unfold [OF g] cleanup_def Let_def)
       (simp add: sample_world_def create_env_both sample_run_result)
qed

subsection \<open>Credentials\<close>

text \<open>
  C6. When neither \<open>GOOGLE_API_KEY\<close> nor \<open>GOOGLE_GENAI_USE_VERTEXAI\<close> has a non-empty
  value, \<open>main\<close> prints the error message and returns. That print is its only effect: no
  session is created, the runner is not started, nothing is closed, the files are untouched.
\<close>

theorem missing_credential_aborts:
  assumes "\<not> str_truthy (environ w ''GOOGLE_API_KEY'')"
      and "\<not> str_truthy (environ w ''GOOGLE_GENAI_USE_VERTEXAI'')"
  shows "main w = (None, [Print ''Error: GOOGLE_API_KEY not found.''], files w)
         \<and> filter is_create_session (fst (snd (main w))) = []
         \<and> filter is_run (fst (snd (main w))) = []
         \<and> filter is_close (fst (snd (main w))) = []"
  using assms by (simp add: main_def)

theorem missing_credential_aborts_witness:
  "main (sample_world [''EXA_API_KEY'' \<mapsto> ''abc123''] None None)
     = (None, [Print ''Error: GOOGLE_API_KEY not found.''], Map.empty)"
  using missing_credential_aborts [of "sample_world [''EXA_API_KEY'' \<mapsto> ''abc123''] None None"]
  by (simp add: sample_world_def)

text \<open>
  C2. When \<open>EXA_API_KEY\<close> is absent or empty (and the model credential is there),
  \<open>create_exa_toolset\<close> returns \<open>None\<close> with a warning, the LeadResearcher of the tree
  has the single tool \<open>google_search\<close>, the runner is started on that tree, \<open>main\<close> ends
  exactly as the event loop ends (the missing key adds no error), and nothing is closed.
\<close>

theorem no_exa_key_degrades:
  assumes "environ w ''EXA_API_KEY'' = None \<or> environ w ''EXA_API_KEY'' = Some []"
      and "str_truthy (environ w ''GOOGLE_API_KEY'') \<or> str_truthy (environ w ''GOOGLE_GENAI_USE_VERTEXAI'')"
  shows "create_exa_toolset (environ w)
           = (None, [Log WARNING ''EXA_API_KEY not set. LeadProfiler will default to Google Search.''])
         \<and> map_option agent_tools
             (find_agent ''LeadResearcher'' (build_agents (fst (create_exa_toolset (environ w)))))
             = Some [google_search]
         \<and> RunAsync (build_agents None) USER_ID SESSION_ID user_query \<in> set (fst (snd (main w)))
         \<and> fst (main w) = fst (run_events (open_error w) (cwd w) (stream_end w) (files w) (events w))
         \<and> filter is_close (fst (snd (main w))) = []"
proof -
  have c: "create_exa_toolset (environ w)
           = (None, [Log WARNING ''EXA_API_KEY not set. LeadProfiler will default to Google Search.''])"
    using assms(1) by (auto simp add: create_exa_toolset_def)
  show ?thesis
    by (simp add: c lead_tools_without_toolset main_unfold [OF assms(2)] cleanup_none
        run_events_no_close)
qed

theorem no_exa_key_degrades_witness:
  "create_exa_toolset env_google_only
     = (None, [Log WARNING ''EXA_API_KEY not set. LeadProfiler will default to Google Search.''])
   \<and> fst (main (sample_world env_google_only None None)) = None
   \<and> filter is_close (fst (snd (main (sample_world env_google_only None None)))) = []"
proof -
  have "fst (run_events None ''/home/rep'' None Map.empty sample_events) = None"
    by (simp add: sample_events_def handle_event_def save_outreach_def first_part_text_def)
  then show ?thesis
    using no_exa_key_degrades [of "sample_world env_google_only None None"]
    by (simp add: sample_world_def env_google_only_def)
qed

subsection \<open>The final output\<close>

text \<open>
  C8. In a run that passes the credential check and returns normally, let \<open>ev\<close> be the last
  final response with content whose author is the OutreachWriter. Then its content has a
  first part with a text; that text is printed, the message naming the saved path
  (the working directory joined with \<open>sales_outreach.md\<close>) is printed, and after the run
  the file \<open>sales_outreach.md\<close> holds exactly that text.
\<close>

theorem final_output_printed_and_saved:
  assumes cred: "str_truthy (environ w ''GOOGLE_API_KEY'') \<or> str_truthy (environ w ''GOOGLE_GENAI_USE_VERTEXAI'')"
      and evs: "events w = before @ ev # after"
      and fin: "is_final_response ev" and au: "author ev = ''OutreachWriter''"
      and co: "content ev = Some c"
      and last: "list_all (\<lambda>e. \<not> is_outreach_final e) after"
      and ok: "fst (main w) = None"
  shows "\<exists>p ps t. parts c = Some (p # ps) \<and> part_text p = Some t
           \<and> Print t \<in> set (fst (snd (main w)))
           \<and> Print (NL @ EMOJI_CHECK @ '' Saved outreach draft to: ''
                      @ abspath (cwd w) ''sales_outreach.md'') \<in> set (fst (snd (main w)))
           \<and> snd (snd (main w)) ''sales_outreach.md'' = Some t"
proof -
  let ?run = "run_events (open_error w) (cwd w) (stream_end w) (files w)"
  let ?pre = "run_events (open_error w) (cwd w) None (files w) before"
  obtain r1 effs1 fs1 where pre: "?pre = (r1, effs1, fs1)"
    by (cases ?pre) auto
  obtain r2 effs2 fs2 where h: "handle_event (open_error w) (cwd w) fs1 ev = (r2, effs2, fs2)"
    by (cases "handle_event (open_error w) (cwd w) fs1 ev") auto
  obtain r3 effs3 fs3 where post:
      "run_events (open_error w) (cwd w) (stream_end w) fs2 after = (r3, effs3, fs3)"
    by (cases "run_events (open_error w) (cwd w) (stream_end w) fs2 after") auto
  have m: "main w =
     (fst (cleanup (fst (create_exa_toolset (environ w))) (close_error w) (fst (?run (events w)))),
      ([CreateSession APP_NAME USER_ID SESSION_ID] @ snd (create_exa_toolset (environ w)) @
       [Print (EMOJI_ROCKET @ '' Starting Sales System (Rep: '' @ SALES_REP_NAME @ '')...''),
        Print (replicate 64 CHR ''-''),
        Print (''TARGET: '' @ user_query @ NL),
        RunAsync (build_agents (fst (create_exa_toolset (environ w)))) USER_ID SESSION_ID user_query])
      @ fst (snd (?run (events w)))
      @ snd (cleanup (fst (create_exa_toolset (environ w))) (close_error w) (fst (?run (events w)))),
      snd (snd (?run (events w))))"
    by (rule main_unfold [OF cred])
  have body_ok: "fst (?run (events w)) = None"
  proof -
    have "fst (cleanup ts ce pend) = None \<Longrightarrow> pend = None" for ts ce pend
      by (auto simp add: cleanup_def Let_def split: option.splits if_splits)
    with ok m show ?thesis by simp
  qed
  have split_run: "?run (events w) =
      (case ?pre of
         (Some e, effs, fs') \<Rightarrow> (Some e, effs, fs')
       | (None, effs, fs') \<Rightarrow>
           (case run_events (open_error w) (cwd w) (stream_end w) fs' (ev # after) of
              (r, effs', fs'') \<Rightarrow> (r, effs @ effs', fs'')))"
    unfolding evs by (rule run_events_append)
  have r1: "r1 = None"
    using body_ok split_run pre by (cases r1) auto
  have r2: "r2 = None"
    using body_ok split_run pre r1 h by (cases r2) auto
  have whole: "?run (events w) = (r3, effs1 @ effs2 @ effs3, fs3)"
    using split_run pre r1 h r2 post by simp
  have fs3: "fs3 = fs2"
    using run_events_other_files [OF last, of "open_error w" "cwd w" "stream_end w" fs2] post
    by simp
  from handle_outreach_ok [OF fin au co h [unfolded r2]]
  obtain p ps t where t: "parts c = Some (p # ps)" "part_text p = Some t"
      "Print t \<in> set effs2"
      "Print (NL @ EMOJI_CHECK @ '' Saved outreach draft to: '' @ abspath (cwd w) ''sales_outreach.md'') \<in> set effs2"
      "fs2 = fs1(''sales_outreach.md'' \<mapsto> t)"
    by blast
  have tr: "set effs2 \<subseteq> set (fst (snd (main w)))"
    using m whole by auto
  have fl: "snd (snd (main w)) = fs2"
    using m whole fs3 by simp
  show ?thesis
    using t tr fl by auto
qed

theorem final_output_printed_and_saved_witness:
  "fst (main (sample_world env_both None None)) = None
   \<and> Print ''Hello Carlos'' \<in> set (fst (snd (main (sample_world env_both None None))))
   \<and> snd (snd (main (sample_world env_both None None))) ''sales_outreach.md'' = Some ''Hello Carlos''"
proof -
  let ?w = "sample_world env_both None None"
  let ?ev = "\<lparr>author = ''OutreachWriter'', is_final_response = True,
       content = Some \<lparr>parts = Some [\<lparr>part_text = Some ''Hello Carlos''\<rparr>]\<rparr>\<rparr>"
  have a: "fst (run_events None ''/home/rep'' None Map.empty sample_events) = None"
    by (simp add: sample_events_def handle_event_def save_outreach_def first_part_text_def)
  have c: "str_truthy (environ ?w ''GOOGLE_API_KEY'') \<or> str_truthy (environ ?w ''GOOGLE_GENAI_USE_VERTEXAI'')"
    by (simp add: sample_world_def env_both_def)
  have ok: "fst (main ?w) = None"
    using a by (simp add: main_unfold [OF c] cleanup_def Let_def) (simp add: sample_world_def create_env_both)
  have e: "events ?w = [\<lparr>author = ''PositioningStrategist'', is_final_response = True,
       content = Some \<lparr>parts = Some [\<lparr>part_text = Some ''Strategy''\<rparr>]\<rparr>\<rparr>] @ ?ev # []"
    by (simp add: sample_world_def sample_events_def)
  show ?thesis
    using final_output_printed_and_saved [OF c e _ _ _ _ ok, of "\<lparr>parts = Some [\<lparr>part_text = Some ''Hello Carlos''\<rparr>]\<rparr>"] ok
    by simp
qed

end
